theory Spec2Isabelle
  imports Complex_Main
begin

section \<open>Values and errors\<close>

text \<open>
  A numpy \<open>float64\<close> (and a Python \<open>float\<close>) is a finite real number, one of the two
  zeros, an infinity or \<open>NaN\<close>. \<open>Fin 0\<close> is the zero \<open>+0.0\<close> and \<open>NZero\<close> the zero
  \<open>-0.0\<close>. A result whose magnitude reaches the overflow threshold of the format becomes
  an infinity. Below the threshold the arithmetic is exact: rounding to 53 bits and
  underflow are not modelled.
\<close>

datatype npf = Fin real | NZero | PInf | NInf | NaN

text \<open>The exceptions raised by the two modules and by the numpy calls they make.\<close>

datatype error =
  RuntimeError string | ValueError string | OverflowError string | MemoryError string

text \<open>
  The least magnitude that rounds to an infinity: half a unit in the last place above
  the largest \<open>float64\<close>.
\<close>

definition f64_overflow :: real where
  "f64_overflow = 2 ^ 1024 - 2 ^ 970"

definition f64 :: "real \<Rightarrow> npf" where
  "f64 r = (if f64_overflow \<le> r then PInf else if r \<le> - f64_overflow then NInf else Fin r)"

text \<open>
  The sign bit. The sign of a \<open>NaN\<close> is not modelled; the one place that reads a sign
  bit, the check of the scale in \<open>rng.normal\<close>, looks at it only when the scale is not
  \<open>NaN\<close>.
\<close>

fun np_signbit :: "npf \<Rightarrow> bool" where
  "np_signbit (Fin a) = (a < 0)"
| "np_signbit NZero = True"
| "np_signbit NInf = True"
| "np_signbit PInf = False"
| "np_signbit NaN = False"

fun is_zero :: "npf \<Rightarrow> bool" where
  "is_zero (Fin a) = (a = 0)"
| "is_zero NZero = True"
| "is_zero x = False"

fun is_inf :: "npf \<Rightarrow> bool" where
  "is_inf PInf = True"
| "is_inf NInf = True"
| "is_inf x = False"

fun fin_val :: "npf \<Rightarrow> real" where
  "fin_val (Fin a) = a"
| "fin_val x = 0"

definition signed_zero :: "bool \<Rightarrow> npf" where
  "signed_zero neg = (if neg then NZero else Fin 0)"

definition signed_inf :: "bool \<Rightarrow> npf" where
  "signed_inf neg = (if neg then NInf else PInf)"

text \<open>
  Addition: opposite infinities give \<open>NaN\<close>; two zeros give \<open>-0.0\<close> only when both are
  \<open>-0.0\<close>; a finite sum that cancels is \<open>+0.0\<close>.
\<close>

definition np_add :: "npf \<Rightarrow> npf \<Rightarrow> npf" where
  "np_add x y =
     (if x = NaN \<or> y = NaN then NaN
      else if (x = PInf \<and> y = NInf) \<or> (x = NInf \<and> y = PInf) then NaN
      else if is_inf x then x
      else if is_inf y then y
      else if is_zero x \<and> is_zero y then signed_zero (np_signbit x \<and> np_signbit y)
      else f64 (fin_val x + fin_val y))"

text \<open>
  Multiplication: zero times infinity is \<open>NaN\<close>; otherwise the sign of the result is
  negative exactly when the signs of the operands differ.
\<close>

definition np_mul :: "npf \<Rightarrow> npf \<Rightarrow> npf" where
  "np_mul x y =
     (if x = NaN \<or> y = NaN then NaN
      else if (is_zero x \<and> is_inf y) \<or> (is_inf x \<and> is_zero y) then NaN
      else if is_inf x \<or> is_inf y then signed_inf (np_signbit x \<noteq> np_signbit y)
      else if is_zero x \<or> is_zero y then signed_zero (np_signbit x \<noteq> np_signbit y)
      else f64 (fin_val x * fin_val y))"

text \<open>
  numpy's true division never raises: \<open>0 / 0\<close> and \<open>inf / inf\<close> are \<open>NaN\<close>, any other
  division by a zero is an infinity, and the sign follows the signs of the operands.
\<close>

definition np_div :: "npf \<Rightarrow> npf \<Rightarrow> npf" where
  "np_div x y =
     (if x = NaN \<or> y = NaN then NaN
      else if (is_inf x \<and> is_inf y) \<or> (is_zero x \<and> is_zero y) then NaN
      else if is_inf x \<or> is_zero y then signed_inf (np_signbit x \<noteq> np_signbit y)
      else if is_inf y \<or> is_zero x then signed_zero (np_signbit x \<noteq> np_signbit y)
      else f64 (fin_val x / fin_val y))"

fun np_abs :: "npf \<Rightarrow> npf" where
  "np_abs (Fin a) = Fin \<bar>a\<bar>"
| "np_abs NZero = Fin 0"
| "np_abs PInf = PInf"
| "np_abs NInf = PInf"
| "np_abs NaN = NaN"

text \<open>The square root keeps the sign of a zero: \<open>sqrt(-0.0)\<close> is \<open>-0.0\<close>.\<close>

fun np_sqrt :: "npf \<Rightarrow> npf" where
  "np_sqrt (Fin a) = (if a < 0 then NaN else Fin (sqrt a))"
| "np_sqrt NZero = NZero"
| "np_sqrt PInf = PInf"
| "np_sqrt NInf = NaN"
| "np_sqrt NaN = NaN"

text \<open>
  The comparisons \<open>x <= y\<close> and \<open>x < y\<close>: false as soon as one side is \<open>NaN\<close>; the two
  zeros are equal.
\<close>

fun np_le :: "npf \<Rightarrow> npf \<Rightarrow> bool" where
  "np_le NaN y = False"
| "np_le x NaN = False"
| "np_le NInf y = True"
| "np_le x PInf = True"
| "np_le PInf y = False"
| "np_le x NInf = False"
| "np_le x y = (fin_val x \<le> fin_val y)"

definition np_lt :: "npf \<Rightarrow> npf \<Rightarrow> bool" where
  "np_lt x y = (np_le x y \<and> \<not> np_le y x)"

text \<open>
  \<open>a.sum()\<close>: the entries added up from zero. numpy adds pairwise and rounds each
  addition; without rounding the order of the additions does not change a finite sum.
\<close>

definition np_sum :: "npf list \<Rightarrow> npf" where
  "np_sum xs = foldl np_add (Fin 0) xs"

text \<open>
  \<open>np.mean(xs)\<close> on a Python list: the sum divided by the number of entries. On the
  empty list that is \<open>0.0 / 0\<close>, which numpy evaluates to \<open>NaN\<close> (with a warning, not an
  exception).
\<close>

definition np_mean :: "npf list \<Rightarrow> npf" where
  "np_mean xs = np_div (np_sum xs) (Fin (real (length xs)))"

text \<open>
  The Python slice \<open>xs[-w:]\<close>. The start index is \<open>-w\<close>; a negative start counts from
  the end and is clamped at 0, a non-negative one is clamped at the length. So
  \<open>xs[-0:]\<close> is the whole list.
\<close>

definition py_tail_slice :: "int \<Rightarrow> 'a list \<Rightarrow> 'a list" where
  "py_tail_slice w xs =
     (let n = int (length xs);
          s = - w;
          start = (if s < 0 then max (n + s) 0 else min s n)
      in drop (nat start) xs)"

section \<open>nvdd.py: the structural decay monitor\<close>

record VolatilityDragConfig =
  ticker :: string
  leverage_k :: real
  lookback_window :: int
  risk_free_rate :: real

text \<open>
  The monitor object. The attribute \<open>sim_paths\<close> does not exist until
  \<open>load_simulated_returns\<close> has run: \<open>None\<close> stands for the missing attribute. (The
  attribute \<open>data\<close> is set to \<open>None\<close> by the constructor and never read.)
\<close>

record StructuralDecayMonitor =
  config :: VolatilityDragConfig
  sim_paths :: "npf list list option"

record metrics =
  avg_trend :: npf
  avg_drag :: npf
  avg_efficiency :: npf

definition StructuralDecayMonitor_init :: "VolatilityDragConfig \<Rightarrow> StructuralDecayMonitor" where
  "StructuralDecayMonitor_init cfg = \<lparr>config = cfg, sim_paths = None\<rparr>"

definition load_simulated_returns ::
  "StructuralDecayMonitor \<Rightarrow> npf list list \<Rightarrow> StructuralDecayMonitor" where
  "load_simulated_returns self simulated_log_returns =
     self\<lparr>sim_paths := Some simulated_log_returns\<rparr>"

text \<open>
  The loop over the paths, with the three lists it appends to. \<open>k\<close> is the Python float
  \<open>leverage_k\<close>, \<open>w\<close> the Python int \<open>lookback_window\<close>. The Python expression
  \<open>k**2 / 2\<close> is taken as its exact value: for a \<open>k\<close> whose square reaches
  \<open>f64_overflow\<close> Python raises OverflowError instead, so the facts below that depend on
  the value of the drag are stated for \<open>k ^ 2 < f64_overflow\<close>.
\<close>

fun greeks_loop ::
  "real \<Rightarrow> int \<Rightarrow> npf list list \<Rightarrow> npf list \<times> npf list \<times> npf list
   \<Rightarrow> npf list \<times> npf list \<times> npf list" where
  "greeks_loop k w [] (trends, drags, effs) = (trends, drags, effs)"
| "greeks_loop k w (path # rest) (trends, drags, effs) =
     (if int (length path) < w then greeks_loop k w rest (trends, drags, effs)
      else
        let window = py_tail_slice w path;
            trend = np_abs (np_sum window);
            var_sum = np_sum (map (\<lambda>x. np_mul x x) window);
            drag = np_mul (Fin (k ^ 2 / 2)) var_sum;
            eff = np_div trend (np_add drag (Fin (1 / 100000000)))
        in greeks_loop k w rest (trends @ [trend], drags @ [drag], effs @ [eff]))"

definition compute_structural_greeks :: "StructuralDecayMonitor \<Rightarrow> error + metrics" where
  "compute_structural_greeks self =
     (case sim_paths self of
        None \<Rightarrow> Inl (RuntimeError ''No simulated paths loaded.'')
      | Some paths \<Rightarrow>
          let k = leverage_k (config self);
              w = lookback_window (config self);
              (trends, drags, effs) = greeks_loop k w paths ([], [], [])
          in Inr \<lparr>avg_trend = np_mean trends,
                  avg_drag = np_mean drags,
                  avg_efficiency = np_mean effs\<rparr>)"

text \<open>
  The values the loop body binds for one path that passes the length test, as functions
  of the path: \<open>trend\<close>, \<open>var_sum\<close>, \<open>drag\<close> and \<open>eff\<close>.
\<close>

definition path_trend :: "int \<Rightarrow> npf list \<Rightarrow> npf" where
  "path_trend w path = np_abs (np_sum (py_tail_slice w path))"

definition path_var_sum :: "int \<Rightarrow> npf list \<Rightarrow> npf" where
  "path_var_sum w path = np_sum (map (\<lambda>x. np_mul x x) (py_tail_slice w path))"

definition path_drag :: "real \<Rightarrow> int \<Rightarrow> npf list \<Rightarrow> npf" where
  "path_drag k w path = np_mul (Fin (k ^ 2 / 2)) (path_var_sum w path)"

definition path_eff :: "real \<Rightarrow> int \<Rightarrow> npf list \<Rightarrow> npf" where
  "path_eff k w path =
     np_div (path_trend w path) (np_add (path_drag k w path) (Fin (1 / 100000000)))"

text \<open>
  The specification's window: the last \<open>n\<close> entries of a path, the most recent \<open>n\<close>
  daily returns.
\<close>

definition last_entries :: "nat \<Rightarrow> 'a list \<Rightarrow> 'a list" where
  "last_entries n xs = drop (length xs - n) xs"

section \<open>price\_distribution.py: the path simulation\<close>

text \<open>
  numpy's generator is not part of the repository. It is a parameter of the model: a
  function \<open>seed_state\<close> from a seed to the initial state of the bit generator, and a
  function \<open>nxt\<close> that draws one standard normal sample from a state and returns the
  state that follows.

  \<open>np.random.default_rng(seed)\<close> rejects a negative seed.
\<close>

definition default_rng :: "(nat \<Rightarrow> 's) \<Rightarrow> int \<Rightarrow> error + 's" where
  "default_rng seed_state seed =
     (if seed < 0 then Inl (ValueError ''expected non-negative integer'')
      else Inr (seed_state (nat seed)))"

text \<open>
  \<open>rng.normal(loc, scale, size=(n, d))\<close> fills the matrix row by row, each entry being
  \<open>loc + scale * z\<close> for the next standard normal sample \<open>z\<close>.
\<close>

fun draw_row ::
  "('s \<Rightarrow> real \<times> 's) \<Rightarrow> npf \<Rightarrow> npf \<Rightarrow> nat \<Rightarrow> 's \<Rightarrow> npf list \<times> 's" where
  "draw_row nxt loc scale 0 st = ([], st)"
| "draw_row nxt loc scale (Suc j) st =
     (let (z, st1) = nxt st;
          (row, st2) = draw_row nxt loc scale j st1
      in (np_add loc (np_mul scale (Fin z)) # row, st2))"

fun draw_rows ::
  "('s \<Rightarrow> real \<times> 's) \<Rightarrow> npf \<Rightarrow> npf \<Rightarrow> nat \<Rightarrow> nat \<Rightarrow> 's \<Rightarrow> npf list list \<times> 's" where
  "draw_rows nxt loc scale 0 d st = ([], st)"
| "draw_rows nxt loc scale (Suc i) d st =
     (let (row, st1) = draw_row nxt loc scale d st;
          (rows, st2) = draw_rows nxt loc scale i d st1
      in (row # rows, st2))"

text \<open>
  The checks of \<open>rng.normal\<close>: a scale that is not \<open>NaN\<close> and has its sign bit set is
  rejected (a \<open>NaN\<close> scale passes, the scale \<open>-0.0\<close> does not); then the output array
  is created, which rejects a negative dimension.

  What sizes the machine can provide is the parameter \<open>alloc\<close>: \<open>alloc n d\<close> is the
  exception with which creating the array fails for these sizes alone (a dimension beyond
  the index range, an array beyond the address space, memory exhausted), and \<open>None\<close>
  when the sizes pose no such problem.
\<close>

definition rng_normal ::
  "('s \<Rightarrow> real \<times> 's) \<Rightarrow> (int \<Rightarrow> int \<Rightarrow> error option) \<Rightarrow> 's \<Rightarrow> npf \<Rightarrow> npf
   \<Rightarrow> int \<times> int \<Rightarrow> error + (npf list list \<times> 's)" where
  "rng_normal nxt alloc st loc scale shape =
     (case shape of (n, d) \<Rightarrow>
        if np_signbit scale then Inl (ValueError ''scale < 0'')
        else case alloc n d of
          Some e \<Rightarrow> Inl e
        | None \<Rightarrow>
            if n < 0 \<or> d < 0 then Inl (ValueError ''negative dimensions are not allowed'')
            else Inr (draw_rows nxt loc scale (nat n) (nat d) st))"

text \<open>
  Python converts an \<open>int\<close> to a \<open>float\<close> before it divides it by a \<open>float\<close>, and
  raises OverflowError for an integer too large for the format.
\<close>

definition py_int_to_float :: "int \<Rightarrow> error + real" where
  "py_int_to_float i =
     (if f64_overflow \<le> \<bar>real_of_int i\<bar>
      then Inl (OverflowError ''int too large to convert to float'')
      else Inr (real_of_int i))"

text \<open>
  The function itself, as a step of the process that calls it. \<open>glob\<close> is the state of
  numpy's module-level generator, the one that \<open>np.random.seed\<close> sets and
  \<open>np.random.normal\<close> consumes: whatever it is when the call starts, the function
  neither reads nor writes it, and the call returns it as it was. The generator the
  function draws from is built from \<open>seed\<close> inside the call, and its final state is
  dropped. \<open>spot\<close> is not used. The year fraction \<open>T = days_to_expiry / 252.0\<close> is
  computed and not used: only the conversion of \<open>days_to_expiry\<close> can be observed, when
  it fails.
\<close>

definition simulate_log_return_paths ::
  "(nat \<Rightarrow> 's) \<Rightarrow> ('s \<Rightarrow> real \<times> 's) \<Rightarrow> (int \<Rightarrow> int \<Rightarrow> error option) \<Rightarrow> 'g
   \<Rightarrow> real \<Rightarrow> npf \<Rightarrow> int \<Rightarrow> int \<Rightarrow> int \<Rightarrow> (error + npf list list) \<times> 'g" where
  "simulate_log_return_paths seed_state nxt alloc glob spot forward_variance days_to_expiry
       n_paths seed =
     (case default_rng seed_state seed of
        Inl e \<Rightarrow> (Inl e, glob)
      | Inr rng \<Rightarrow>
          (case py_int_to_float days_to_expiry of
             Inl e \<Rightarrow> (Inl e, glob)
           | Inr days \<Rightarrow>
               let T = days / 252;
                   sigma_annual = np_sqrt forward_variance;
                   sigma_daily = np_div sigma_annual (np_sqrt (Fin 252))
               in case rng_normal nxt alloc rng (Fin 0) sigma_daily
                         (n_paths, days_to_expiry) of
                    Inl e \<Rightarrow> (Inl e, glob)
                  | Inr (log_rets, rng1) \<Rightarrow> (Inr log_rets, glob)))"

text \<open>
  A small generator on which the model can be run: the state is a counter, and each
  draw returns the counter as its sample.
\<close>

definition counter_next :: "nat \<Rightarrow> real \<times> nat" where
  "counter_next s = (real s, Suc s)"

text \<open>
  Two machines: one that can provide any non-negative size, and one that can hold a
  million entries.
\<close>

definition ample_memory :: "int \<Rightarrow> int \<Rightarrow> error option" where
  "ample_memory n d = None"

definition limited_memory :: "int \<Rightarrow> int \<Rightarrow> error option" where
  "limited_memory n d =
     (if 0 \<le> n \<and> 0 \<le> d \<and> 1000000 < n * d
      then Some (MemoryError ''Unable to allocate array'') else None)"

section \<open>Facts about the arithmetic\<close>

lemma f64_overflow_pos: "0 < f64_overflow"
  by (simp add: f64_overflow_def)

lemma f64_overflow_big: "2 ^ 1023 < f64_overflow"
  by (simp add: f64_overflow_def)

lemma f64_Fin: "\<bar>r\<bar> < f64_overflow \<Longrightarrow> f64 r = Fin r"
  by (auto simp: f64_def)

lemma f64_small: "\<bar>r\<bar> \<le> 1000000000000 \<Longrightarrow> f64 r = Fin r"
  by (rule f64_Fin) (simp add: f64_overflow_def)

lemma f64_zero: "f64 0 = Fin 0"
  using f64_overflow_pos by (simp add: f64_def)

lemma f64_nonneg_signbit: "0 \<le> r \<Longrightarrow> \<not> np_signbit (f64 r)"
  using f64_overflow_pos by (simp add: f64_def)

lemma np_add_Fin: "np_add (Fin a) (Fin b) = f64 (a + b)"
  by (simp add: np_add_def signed_zero_def f64_zero)

lemma np_mul_Fin:
  "np_mul (Fin a) (Fin b) =
     (if a = 0 \<or> b = 0 then signed_zero ((a < 0) \<noteq> (b < 0)) else f64 (a * b))"
  by (simp add: np_mul_def)

lemma np_div_Fin:
  "np_div (Fin a) (Fin b) =
     (if a = 0 \<and> b = 0 then NaN
      else if b = 0 then signed_inf (a < 0)
      else if a = 0 then signed_zero (b < 0)
      else f64 (a / b))"
  by (simp add: np_div_def)

lemma np_square_Fin: "x * x < f64_overflow \<Longrightarrow> np_mul (Fin x) (Fin x) = Fin (x * x)"
  by (simp add: np_mul_Fin signed_zero_def f64_Fin)

lemma np_mean_empty: "np_mean [] = NaN"
  by (simp add: np_mean_def np_sum_def np_div_def)

lemma foldl_np_add_Fin:
  "\<bar>a\<bar> + sum_list (map abs ys) < f64_overflow \<Longrightarrow>
   foldl np_add (Fin a) (map Fin ys) = Fin (a + sum_list ys)"
proof (induction ys arbitrary: a)
  case Nil
  show ?case by simp
next
  case (Cons y ys)
  have step: "np_add (Fin a) (Fin y) = Fin (a + y)"
  proof -
    have "0 \<le> sum_list (map abs ys)" by (rule sum_list_nonneg) auto
    then have "\<bar>a + y\<bar> < f64_overflow" using Cons.prems by simp
    then show ?thesis by (simp add: np_add_Fin f64_Fin)
  qed
  have "\<bar>a + y\<bar> + sum_list (map abs ys) < f64_overflow"
    using Cons.prems by simp
  then have "foldl np_add (Fin (a + y)) (map Fin ys) = Fin (a + y + sum_list ys)"
    by (rule Cons.IH)
  then show ?case using step by (simp add: add.assoc)
qed

lemma np_sum_Fin:
  "sum_list (map abs ys) < f64_overflow \<Longrightarrow> np_sum (map Fin ys) = Fin (sum_list ys)"
  using foldl_np_add_Fin [of 0 ys] by (simp add: np_sum_def)

lemma squares_Fin:
  assumes "sum_list (map (\<lambda>x. x * x) xs) < f64_overflow"
  shows "map (\<lambda>x. np_mul x x) (map Fin xs) = map Fin (map (\<lambda>x. x * x) xs)"
proof -
  have "x * x < f64_overflow" if "x \<in> set xs" for x
  proof -
    have "x * x \<le> sum_list (map (\<lambda>x. x * x) xs)"
      using that by (intro member_le_sum_list) auto
    then show ?thesis using assms by simp
  qed
  then show ?thesis by (simp add: np_square_Fin)
qed

lemma np_sum_squares_Fin:
  assumes "sum_list (map (\<lambda>x. x * x) xs) < f64_overflow"
  shows "np_sum (map (\<lambda>x. np_mul x x) (map Fin xs)) = Fin (sum_list (map (\<lambda>x. x * x) xs))"
proof -
  have "map abs (map (\<lambda>x. x * x) xs) = map (\<lambda>x::real. x * x) xs"
    by simp
  then have "sum_list (map abs (map (\<lambda>x. x * x) xs)) < f64_overflow"
    using assms by (simp only:)
  then have "np_sum (map Fin (map (\<lambda>x. x * x) xs)) = Fin (sum_list (map (\<lambda>x. x * x) xs))"
    by (rule np_sum_Fin)
  then show ?thesis using squares_Fin [OF assms] by (simp only:)
qed

section \<open>Facts about slices and the loop\<close>


lemma last_entries_rev: "last_entries n xs = rev (take n (rev xs))"
  by (simp add: last_entries_def rev_take)

lemma last_entries_map: "last_entries n (map f xs) = map f (last_entries n xs)"
  by (simp add: last_entries_def drop_map)

lemma py_tail_slice_last:
  "0 < w \<Longrightarrow> w \<le> int (length xs) \<Longrightarrow> py_tail_slice w xs = last_entries (nat w) xs"
  by (simp add: py_tail_slice_def last_entries_def Let_def nat_diff_distrib')

lemma greeks_loop_step:
  "\<not> int (length path) < w \<Longrightarrow>
   greeks_loop k w (path # rest) (ts, ds, es) =
   greeks_loop k w rest
     (ts @ [path_trend w path], ds @ [path_drag k w path], es @ [path_eff k w path])"
  by (simp add: Let_def path_trend_def path_drag_def path_eff_def path_var_sum_def)

lemma greeks_loop_skip:
  "int (length path) < w \<Longrightarrow>
   greeks_loop k w (path # rest) (ts, ds, es) = greeks_loop k w rest (ts, ds, es)"
  by simp

lemma greeks_loop_filter:
  "greeks_loop k w paths (ts, ds, es) =
     (ts @ map (path_trend w) (filter (\<lambda>p. w \<le> int (length p)) paths),
      ds @ map (path_drag k w) (filter (\<lambda>p. w \<le> int (length p)) paths),
      es @ map (path_eff k w) (filter (\<lambda>p. w \<le> int (length p)) paths))"
proof (induction paths arbitrary: ts ds es)
  case Nil
  show ?case by simp
next
  case (Cons path rest)
  show ?case
  proof (cases "int (length path) < w")
    case True
    then show ?thesis using Cons.IH by simp
  next
    case False
    then show ?thesis using Cons.IH by (simp add: greeks_loop_step del: greeks_loop.simps)
  qed
qed

lemma py_tail_slice_map: "py_tail_slice w (map f xs) = map f (py_tail_slice w xs)"
  by (simp add: py_tail_slice_def Let_def drop_map)

lemma py_tail_slice_zero: "py_tail_slice 0 xs = xs"
  by (simp add: py_tail_slice_def)

lemma sum_sq_drop_le:
  "sum_list (map (\<lambda>x. x * x) (drop c ys)) \<le> sum_list (map (\<lambda>x::real. x * x) ys)"
proof -
  have "sum_list (map (\<lambda>x. x * x) ys)
      = sum_list (map (\<lambda>x. x * x) (take c ys)) + sum_list (map (\<lambda>x. x * x) (drop c ys))"
    by (metis append_take_drop_id map_append sum_list_append)
  moreover have "0 \<le> sum_list (map (\<lambda>x::real. x * x) (take c ys))"
    by (rule sum_list_nonneg) auto
  ultimately show ?thesis by simp
qed

lemma sum_sq_last_entries_mono:
  assumes "w1 \<le> w2"
  shows "sum_list (map (\<lambda>x. x * x) (last_entries w1 xs))
       \<le> sum_list (map (\<lambda>x::real. x * x) (last_entries w2 xs))"
proof -
  have "length xs - w1 = ((length xs - w1) - (length xs - w2)) + (length xs - w2)"
    using assms by arith
  then have "last_entries w1 xs
           = drop ((length xs - w1) - (length xs - w2)) (last_entries w2 xs)"
    unfolding last_entries_def drop_drop by simp
  then show ?thesis by (simp only: sum_sq_drop_le)
qed

lemma f64_mono: "0 \<le> a \<Longrightarrow> a \<le> b \<Longrightarrow> np_le (f64 a) (f64 b)"
  using f64_overflow_pos by (auto simp: f64_def)

lemma np_mul_nonneg_Fin:
  "0 \<le> c \<Longrightarrow> 0 \<le> v \<Longrightarrow> np_mul (Fin c) (Fin v) = f64 (c * v)"
  by (auto simp: np_mul_Fin signed_zero_def f64_zero)

section \<open>The lifecycle of the monitor\<close>

text \<open>
  C6. Calling \<open>compute_structural_greeks\<close> on a freshly constructed monitor, before any
  matrix has been loaded, fails with the error "No simulated paths loaded."; once
  \<open>load_simulated_returns\<close> has stored a matrix, whatever the monitor was before, the
  call returns metrics and raises nothing.
\<close>

theorem compute_no_data_lifecycle:
  "compute_structural_greeks (StructuralDecayMonitor_init cfg)
     = Inl (RuntimeError ''No simulated paths loaded.'')
   \<and> (\<exists>m. compute_structural_greeks (load_simulated_returns self paths) = Inr m)"
  by (simp add: compute_structural_greeks_def StructuralDecayMonitor_init_def
      load_simulated_returns_def Let_def split: prod.split)

section \<open>The metrics of one path\<close>



text \<open>
  C10. The metrics of an included path depend on its last \<open>lookback_window\<close> entries
  only: two paths of equal length that agree on their last \<open>lookback_window\<close> entries
  (\<open>lookback_window\<close> positive and not above the length) make the loop append the same
  trend, drag and efficiency, whatever their earlier entries are.
\<close>

theorem per_path_metrics_local:
  assumes "0 < w" and "w \<le> int (length p)" and "length q = length p"
    and "last_entries (nat w) q = last_entries (nat w) p"
  shows "greeks_loop k w (q # rest) (ts, ds, es) = greeks_loop k w (p # rest) (ts, ds, es)"
proof -
  have "py_tail_slice w q = py_tail_slice w p"
    using assms by (simp add: py_tail_slice_last)
  moreover have "\<not> int (length p) < w" "\<not> int (length q) < w"
    using assms by simp_all
  ultimately show ?thesis by (simp add: Let_def)
qed

text \<open>
  An instance: \<open>[-4, 1, 2]\<close> and \<open>[7, 1, 2]\<close> with window 2.
\<close>

theorem per_path_metrics_local_witness:
  "(0::int) < 2 \<and> 2 \<le> int (length [Fin 7, Fin 1, Fin 2])
   \<and> length [Fin (-4), Fin 1, Fin 2] = length [Fin 7, Fin 1, Fin 2]
   \<and> last_entries (nat 2) [Fin (-4), Fin 1, Fin 2] = last_entries (nat 2) [Fin 7, Fin 1, Fin 2]
   \<and> greeks_loop 3 2 [[Fin (-4), Fin 1, Fin 2]] ([], [], [])
     = greeks_loop 3 2 [[Fin 7, Fin 1, Fin 2]] ([], [], [])"
proof -
  have h: "last_entries (nat 2) [Fin (-4), Fin 1, Fin 2]
         = last_entries (nat 2) [Fin 7, Fin 1, Fin 2]"
    by (simp add: last_entries_def)
  show ?thesis
    using h per_path_metrics_local [of 2 "[Fin 7, Fin 1, Fin 2]" "[Fin (-4), Fin 1, Fin 2]"
        3 "[]" "[]" "[]" "[]"]
    by simp
qed

text \<open>
  C8, as the code has it. With \<open>leverage_k = 0\<close>, an included path of finite returns gets
  drag 0 and the finite efficiency \<open>trend / 1e-8\<close> (the divisor is \<open>1e-8\<close>, never zero)
  provided the returns of the window are small enough for the squares and the sums to
  stay finite: the sum of their squares, and \<open>1e8\<close> times the sum of their magnitudes,
  are at most \<open>2^1023\<close>.
\<close>

theorem zero_leverage_drag_and_efficiency:
  assumes "w \<le> int (length xs)"
    and "sum_list (map (\<lambda>x. x * x) (py_tail_slice w xs)) \<le> 2 ^ 1023"
    and "sum_list (map abs (py_tail_slice w xs)) * 100000000 \<le> 2 ^ 1023"
  shows "greeks_loop 0 w (map Fin xs # rest) (ts, ds, es) =
         greeks_loop 0 w rest
           (ts @ [Fin \<bar>sum_list (py_tail_slice w xs)\<bar>],
            ds @ [Fin 0],
            es @ [Fin (\<bar>sum_list (py_tail_slice w xs)\<bar> / (1 / 100000000))])"
proof -
  let ?win = "py_tail_slice w xs"
  let ?t = "\<bar>sum_list ?win\<bar>"
  let ?v = "sum_list (map (\<lambda>x. x * x) ?win)"
  have nn: "0 \<le> sum_list (map abs ?win)"
    by (rule sum_list_nonneg) auto
  have mag: "sum_list (map abs ?win) * 100000000 < f64_overflow"
    using assms(3) f64_overflow_big by simp
  have "sum_list (map abs ?win) \<le> sum_list (map abs ?win) * 100000000"
    using nn by simp
  then have small: "sum_list (map abs ?win) < f64_overflow"
    using mag by simp
  have t_le: "?t \<le> sum_list (map abs ?win)"
    by (rule sum_list_abs)
  have trend: "path_trend w (map Fin xs) = Fin ?t"
    using small by (simp add: path_trend_def py_tail_slice_map np_sum_Fin)
  have "?v < f64_overflow"
    using assms(2) f64_overflow_big by simp
  then have var: "path_var_sum w (map Fin xs) = Fin ?v"
    by (simp only: path_var_sum_def py_tail_slice_map np_sum_squares_Fin)
  have "0 \<le> ?v"
    by (rule sum_list_nonneg) auto
  then have drag: "path_drag 0 w (map Fin xs) = Fin 0"
    by (simp add: path_drag_def var np_mul_Fin signed_zero_def)
  have "?t * 100000000 \<le> sum_list (map abs ?win) * 100000000"
    using t_le by simp
  then have "\<bar>?t / (1 / 100000000)\<bar> < f64_overflow"
    using mag by simp
  then have quot: "f64 (?t / (1 / 100000000)) = Fin (?t / (1 / 100000000))"
    by (rule f64_Fin)
  have eps: "f64 (1 / 100000000) = Fin (1 / 100000000)"
    by (simp add: f64_def f64_overflow_def)
  have eff: "path_eff 0 w (map Fin xs) = Fin (?t / (1 / 100000000))"
  proof (cases "?t = 0")
    case True
    then show ?thesis
      by (simp add: path_eff_def trend drag np_add_Fin eps np_div_Fin signed_zero_def)
  next
    case False
    then show ?thesis
      using quot by (simp add: path_eff_def trend drag np_add_Fin eps np_div_Fin)
  qed
  have "\<not> int (length (map Fin xs)) < w" using assms(1) by simp
  then show ?thesis
    by (simp add: greeks_loop_step trend drag eff del: greeks_loop.simps)
qed

text \<open>
  An instance: the path \<open>[3, 1, -5]\<close> with window 2 has trend 4, drag 0 and efficiency
  \<open>4 / 1e-8\<close>.
\<close>

theorem zero_leverage_drag_and_efficiency_witness:
  "(2::int) \<le> int (length [3, 1, -5 :: real])
   \<and> sum_list (map (\<lambda>x. x * x) (py_tail_slice 2 [3, 1, -5 :: real])) \<le> 2 ^ 1023
   \<and> sum_list (map abs (py_tail_slice 2 [3, 1, -5 :: real])) * 100000000 \<le> 2 ^ 1023
   \<and> greeks_loop 0 2 [map Fin [3, 1, -5]] ([], [], []) = ([Fin 4], [Fin 0], [Fin 400000000])"
proof -
  have s: "py_tail_slice 2 [3, 1, -5 :: real] = [1, -5]"
    by (simp add: py_tail_slice_def)
  have h2: "sum_list (map (\<lambda>x. x * x) (py_tail_slice 2 [3, 1, -5 :: real])) \<le> 2 ^ 1023"
    by (simp add: s)
  have h3: "sum_list (map abs (py_tail_slice 2 [3, 1, -5 :: real])) * 100000000 \<le> 2 ^ 1023"
    by (simp add: s)
  show ?thesis
    using h2 h3 zero_leverage_drag_and_efficiency [of 2 "[3, 1, -5]" "[]" "[]" "[]" "[]"]
    by (simp add: s)
qed

text \<open>
  C8 as stated fails for a finite return whose square overflows: with \<open>leverage_k = 0\<close>
  and the one-entry path \<open>[2^600]\<close> the sum of squares is infinite, the drag \<open>0 * inf\<close> is
  \<open>NaN\<close> and so is the efficiency.
\<close>

theorem zero_leverage_counterexample:
  "greeks_loop 0 1 [[Fin (2 ^ 600)]] ([], [], []) = ([Fin (2 ^ 600)], [NaN], [NaN])"
  by (simp add: py_tail_slice_def np_sum_def np_add_def np_mul_def np_div_def
      signed_zero_def signed_inf_def f64_def f64_overflow_def)

text \<open>
  C9, as the code has it. For a path of finite returns and window lengths
  \<open>1 \<le> w1 \<le> w2 \<le> 7\<close>, both not above the length of the path, with returns small
  enough for the sum of the squares of the longer window to stay finite (at most
  \<open>2^1023\<close>) and a \<open>leverage_k\<close> whose square does not overflow, the sum of the squares of
  the last \<open>w2\<close> returns is at least the sum of the squares of the last \<open>w1\<close> returns,
  and the drag for \<open>w2\<close> is at least the drag for \<open>w1\<close>.

  The windows stop at 7 because numpy adds fewer than eight numbers one after the other.
  From eight numbers on it adds them pairwise, and with the rounding of each addition,
  which this model leaves out, the sum for a longer window can come out lower than the
  sum for a shorter one: those windows are left out of the statement.
\<close>

theorem windowed_sum_of_squares_monotone:
  assumes "0 < w1" and "w1 \<le> w2" and "w2 \<le> 7" and "w2 \<le> int (length xs)"
    and "k ^ 2 < f64_overflow"
    and "sum_list (map (\<lambda>x. x * x) (py_tail_slice w2 xs)) \<le> 2 ^ 1023"
  shows "np_le (path_var_sum w1 (map Fin xs)) (path_var_sum w2 (map Fin xs))
       \<and> np_le (path_drag k w1 (map Fin xs)) (path_drag k w2 (map Fin xs))"
proof -
  let ?v1 = "sum_list (map (\<lambda>x. x * x) (py_tail_slice w1 xs))"
  let ?v2 = "sum_list (map (\<lambda>x. x * x) (py_tail_slice w2 xs))"
  have s1: "py_tail_slice w1 xs = last_entries (nat w1) xs"
    using assms by (simp add: py_tail_slice_last)
  have s2: "py_tail_slice w2 xs = last_entries (nat w2) xs"
    using assms by (simp add: py_tail_slice_last)
  have le: "?v1 \<le> ?v2"
    using assms(1,2) by (simp add: s1 s2 sum_sq_last_entries_mono)
  have v2: "?v2 < f64_overflow"
    using assms(6) f64_overflow_big by simp
  then have v1: "?v1 < f64_overflow"
    using le by simp
  have nn: "0 \<le> ?v1"
    by (rule sum_list_nonneg) auto
  have var1: "path_var_sum w1 (map Fin xs) = Fin ?v1"
    using v1 by (simp only: path_var_sum_def py_tail_slice_map np_sum_squares_Fin)
  have var2: "path_var_sum w2 (map Fin xs) = Fin ?v2"
    using v2 by (simp only: path_var_sum_def py_tail_slice_map np_sum_squares_Fin)
  have c: "0 \<le> k ^ 2 / 2" by simp
  have drag1: "path_drag k w1 (map Fin xs) = f64 (k ^ 2 / 2 * ?v1)"
    using c nn by (simp add: path_drag_def var1 np_mul_nonneg_Fin)
  have drag2: "path_drag k w2 (map Fin xs) = f64 (k ^ 2 / 2 * ?v2)"
    using c nn le by (simp add: path_drag_def var2 np_mul_nonneg_Fin)
  have "k ^ 2 / 2 * ?v1 \<le> k ^ 2 / 2 * ?v2"
    using c le by (rule mult_left_mono [rotated])
  moreover have "0 \<le> k ^ 2 / 2 * ?v1"
    using c nn by simp
  ultimately have "np_le (f64 (k ^ 2 / 2 * ?v1)) (f64 (k ^ 2 / 2 * ?v2))"
    by (intro f64_mono)
  then show ?thesis using le by (simp add: var1 var2 drag1 drag2)
qed

text \<open>
  An instance: on \<open>[2, 0, 1, -3]\<close> with leverage 2 the sum of squares is 9 for window 1
  and 10 for window 3, and the drags are 18 and 20.
\<close>

theorem windowed_sum_of_squares_monotone_witness:
  "(0::int) < 1 \<and> (1::int) \<le> 3 \<and> (3::int) \<le> 7 \<and> 3 \<le> int (length [2, 0, 1, -3 :: real])
   \<and> (2::real) ^ 2 < f64_overflow
   \<and> sum_list (map (\<lambda>x. x * x) (py_tail_slice 3 [2, 0, 1, -3 :: real])) \<le> 2 ^ 1023
   \<and> path_var_sum 1 (map Fin [2, 0, 1, -3]) = Fin 9
   \<and> path_var_sum 3 (map Fin [2, 0, 1, -3]) = Fin 10
   \<and> path_drag 2 1 (map Fin [2, 0, 1, -3]) = Fin 18
   \<and> path_drag 2 3 (map Fin [2, 0, 1, -3]) = Fin 20
   \<and> np_le (path_var_sum 1 (map Fin [2, 0, 1, -3])) (path_var_sum 3 (map Fin [2, 0, 1, -3]))
   \<and> np_le (path_drag 2 1 (map Fin [2, 0, 1, -3])) (path_drag 2 3 (map Fin [2, 0, 1, -3]))"
proof -
  have k: "(2::real) ^ 2 < f64_overflow"
    by (simp add: f64_overflow_def)
  have s: "py_tail_slice 3 [2, 0, 1, -3 :: real] = [0, 1, -3]"
    by (simp add: py_tail_slice_def)
  have b: "sum_list (map (\<lambda>x. x * x) (py_tail_slice 3 [2, 0, 1, -3 :: real])) \<le> 2 ^ 1023"
    by (simp add: s)
  have vals: "path_var_sum 1 (map Fin [2, 0, 1, -3]) = Fin 9"
    "path_var_sum 3 (map Fin [2, 0, 1, -3]) = Fin 10"
    "path_drag 2 1 (map Fin [2, 0, 1, -3]) = Fin 18"
    "path_drag 2 3 (map Fin [2, 0, 1, -3]) = Fin 20"
    by (simp_all add: path_drag_def path_var_sum_def py_tail_slice_def np_sum_def
        np_add_Fin np_mul_Fin signed_zero_def f64_small)
  show ?thesis
    using k b vals windowed_sum_of_squares_monotone [of 1 3 "[2, 0, 1, -3]" 2]
    by simp
qed

text \<open>
  C9 as stated fails where a square overflows: on the path \<open>[2^600, 1]\<close> with
  \<open>leverage_k = 0\<close> the drag is 0 for window 1, but for window 2 the sum of squares is
  infinite and the drag \<open>0 * inf\<close> is \<open>NaN\<close>, which is not greater than or equal to 0.
\<close>

theorem windowed_sum_of_squares_counterexample:
  "path_drag 0 1 (map Fin [2 ^ 600, 1]) = Fin 0
   \<and> path_var_sum 2 (map Fin [2 ^ 600, 1]) = PInf
   \<and> path_drag 0 2 (map Fin [2 ^ 600, 1]) = NaN
   \<and> \<not> np_le (path_drag 0 1 (map Fin [2 ^ 600, 1])) (path_drag 0 2 (map Fin [2 ^ 600, 1]))"
  by (simp add: path_drag_def path_var_sum_def py_tail_slice_def np_sum_def np_add_def
      np_mul_def signed_zero_def signed_inf_def f64_def f64_overflow_def)

section \<open>Aggregation\<close>

text \<open>
  C7. When at least one path is \<open>lookback_window\<close> long or longer (and the square of
  \<open>leverage_k\<close> does not overflow), the call returns metrics (no error); every shorter
  path is left out, so that the result is the one computed on the matrix without the
  short paths; and \<open>avg_trend\<close>, \<open>avg_drag\<close>, \<open>avg_efficiency\<close> are the sums of the
  trends, drags and efficiencies of the included paths divided by the number of included
  paths, which is not zero.
\<close>

theorem aggregates_are_means_over_included:
  assumes "sim_paths self = Some paths"
    and "lookback_window (config self) = w"
    and "leverage_k (config self) = k"
    and "k ^ 2 < f64_overflow"
    and "\<exists>p \<in> set paths. w \<le> int (length p)"
  shows "let included = filter (\<lambda>p. w \<le> int (length p)) paths;
             n = Fin (real (length included))
         in 0 < length included
          \<and> compute_structural_greeks self =
              Inr \<lparr>avg_trend = np_div (np_sum (map (path_trend w) included)) n,
                   avg_drag = np_div (np_sum (map (path_drag k w) included)) n,
                   avg_efficiency = np_div (np_sum (map (path_eff k w) included)) n\<rparr>
          \<and> compute_structural_greeks (self\<lparr>sim_paths := Some included\<rparr>)
              = compute_structural_greeks self"
proof -
  have ne: "0 < length (filter (\<lambda>p. w \<le> int (length p)) paths)"
    using assms(5) by (simp add: filter_empty_conv)
  show ?thesis
    using assms(1-3) ne
    by (simp add: compute_structural_greeks_def greeks_loop_filter np_mean_def Let_def)
qed

text \<open>
  An instance: of the three paths \<open>[1]\<close>, \<open>[1, 2]\<close>, \<open>[3, -1, 1]\<close> with window 2
  the first is left out, and the means are taken over the other two.
\<close>

theorem aggregates_are_means_over_included_witness:
  "(1::real) ^ 2 < f64_overflow
   \<and> (\<exists>p \<in> set [[Fin 1], [Fin 1, Fin 2], [Fin 3, Fin (-1), Fin 1]]. (2::int) \<le> int (length p))
   \<and> compute_structural_greeks
        \<lparr>config = \<lparr>ticker = ''NVDD'', leverage_k = 1, lookback_window = 2,
                    risk_free_rate = 0\<rparr>,
         sim_paths = Some [[Fin 1], [Fin 1, Fin 2], [Fin 3, Fin (-1), Fin 1]]\<rparr>
      = Inr \<lparr>avg_trend = Fin (3 / 2), avg_drag = Fin (7 / 4),
             avg_efficiency = Fin (3 / (5 / 2 + 1 / 100000000) / 2)\<rparr>"
proof -
  have k: "(1::real) ^ 2 < f64_overflow"
    by (simp add: f64_overflow_def)
  show ?thesis
    using k aggregates_are_means_over_included
      [of "\<lparr>config = \<lparr>ticker = ''NVDD'', leverage_k = 1, lookback_window = 2,
                        risk_free_rate = 0\<rparr>,
            sim_paths = Some [[Fin 1], [Fin 1, Fin 2], [Fin 3, Fin (-1), Fin 1]]\<rparr>"
          "[[Fin 1], [Fin 1, Fin 2], [Fin 3, Fin (-1), Fin 1]]" 2 1]
    by (simp add: Let_def path_trend_def path_drag_def path_eff_def path_var_sum_def
        py_tail_slice_def np_sum_def np_add_Fin np_mul_Fin np_div_Fin signed_zero_def
        f64_def f64_overflow_def)
qed

text \<open>
  C1, as the code has it. When every path is shorter than \<open>lookback_window\<close>, the call
  raises no error: the three lists stay empty and the result holds \<open>NaN\<close> for
  \<open>avg_trend\<close>, \<open>avg_drag\<close> and \<open>avg_efficiency\<close>, numpy's mean of an empty list.
\<close>

theorem all_paths_short_gives_nan:
  assumes "sim_paths self = Some paths"
    and "\<forall>p \<in> set paths. int (length p) < lookback_window (config self)"
  shows "compute_structural_greeks self
           = Inr \<lparr>avg_trend = NaN, avg_drag = NaN, avg_efficiency = NaN\<rparr>"
proof -
  have "filter (\<lambda>p. lookback_window (config self) \<le> int (length p)) paths = []"
    using assms(2) by (auto simp: filter_empty_conv)
  then show ?thesis
    using assms(1)
    by (simp add: compute_structural_greeks_def greeks_loop_filter np_mean_empty Let_def)
qed

text \<open>
  An instance: the paths \<open>[1]\<close> and \<open>[]\<close> with window 3.
\<close>

theorem all_paths_short_gives_nan_witness:
  "sim_paths \<lparr>config = \<lparr>ticker = ''NVDD'', leverage_k = 2, lookback_window = 3,
                          risk_free_rate = 0\<rparr>,
              sim_paths = Some [[Fin 1], []]\<rparr> = Some [[Fin 1], []]
   \<and> int (length [Fin 1]) < 3 \<and> int (length ([] :: npf list)) < 3
   \<and> compute_structural_greeks
        \<lparr>config = \<lparr>ticker = ''NVDD'', leverage_k = 2, lookback_window = 3,
                    risk_free_rate = 0\<rparr>,
         sim_paths = Some [[Fin 1], []]\<rparr>
      = Inr \<lparr>avg_trend = NaN, avg_drag = NaN, avg_efficiency = NaN\<rparr>"
  using all_paths_short_gives_nan
    [of "\<lparr>config = \<lparr>ticker = ''NVDD'', leverage_k = 2, lookback_window = 3,
                      risk_free_rate = 0\<rparr>,
          sim_paths = Some [[Fin 1], []]\<rparr>" "[[Fin 1], []]"]
  by simp

text \<open>
  C1 as stated fails: with the default window of 10 and two paths of length 2 the call
  returns metrics, all \<open>NaN\<close>, instead of raising an insufficient-data error.
\<close>

theorem all_paths_short_counterexample:
  "compute_structural_greeks
     \<lparr>config = \<lparr>ticker = ''NVDD'', leverage_k = 1, lookback_window = 10, risk_free_rate = 0\<rparr>,
      sim_paths = Some [[Fin 1, Fin 2], [Fin 3, Fin 4]]\<rparr>
   = Inr \<lparr>avg_trend = NaN, avg_drag = NaN, avg_efficiency = NaN\<rparr>"
  by (simp add: compute_structural_greeks_def np_mean_empty)

section \<open>The path simulation\<close>

lemma draw_row_length: "length (fst (draw_row nxt loc scale d st)) = d"
  by (induction d arbitrary: st) (simp_all add: Let_def case_prod_beta)

lemma draw_rows_length: "length (fst (draw_rows nxt loc scale n d st)) = n"
  by (induction n arbitrary: st) (simp_all add: Let_def case_prod_beta)

lemma draw_rows_row_length:
  "row \<in> set (fst (draw_rows nxt loc scale n d st)) \<Longrightarrow> length row = d"
proof (induction n arbitrary: st)
  case 0
  then show ?case by simp
next
  case (Suc n)
  obtain r st1 where r: "draw_row nxt loc scale d st = (r, st1)"
    by (cases "draw_row nxt loc scale d st")
  obtain rs st2 where rs: "draw_rows nxt loc scale n d st1 = (rs, st2)"
    by (cases "draw_rows nxt loc scale n d st1")
  have "length r = d" using draw_row_length [of nxt loc scale d st] r by simp
  moreover have "row \<in> set rs \<Longrightarrow> length row = d"
    using Suc.IH [of st1] rs by simp
  ultimately show ?case using Suc.prems r rs by auto
qed

lemma draw_row_nan: "fst (draw_row nxt (Fin 0) NaN d st) = replicate d NaN"
  by (induction d arbitrary: st) (simp_all add: Let_def case_prod_beta np_mul_def np_add_def)

lemma draw_rows_nan:
  "fst (draw_rows nxt (Fin 0) NaN n d st) = replicate n (replicate d NaN)"
proof (induction n arbitrary: st)
  case 0
  show ?case by simp
next
  case (Suc n)
  obtain r st1 where r: "draw_row nxt (Fin 0) NaN d st = (r, st1)"
    by (cases "draw_row nxt (Fin 0) NaN d st")
  have "r = replicate d NaN" using draw_row_nan [of nxt d st] r by simp
  then show ?case using Suc.IH [of st1] r by (simp add: Let_def case_prod_beta)
qed

lemma draw_rows_no_columns: "fst (draw_rows nxt loc scale n 0 st) = replicate n []"
  by (induction n arbitrary: st) (simp_all add: Let_def case_prod_beta)

text \<open>
  The daily volatility: for a variance that is \<open>+0.0\<close>, positive or \<open>+inf\<close> its sign bit
  is clear; for a negative variance it is \<open>NaN\<close>; for the variance \<open>-0.0\<close> it is \<open>-0.0\<close>.
\<close>

lemma sigma_daily_unit: "np_div (np_sqrt (Fin 252)) (np_sqrt (Fin 252)) = Fin 1"
  by (simp add: np_div_Fin f64_small)

lemma sigma_daily_signbit:
  assumes "np_le (Fin 0) fv" and "fv \<noteq> NZero"
  shows "\<not> np_signbit (np_div (np_sqrt fv) (Fin (sqrt 252)))"
proof (cases fv)
  case (Fin v)
  then have v: "0 \<le> v" using assms(1) by simp
  have "0 \<le> sqrt v / sqrt 252" using v by simp
  then have "\<not> np_signbit (f64 (sqrt v / sqrt 252))"
    by (rule f64_nonneg_signbit)
  then show ?thesis using Fin v by (simp add: np_div_Fin signed_zero_def)
next
  case NZero
  then show ?thesis using assms(2) by simp
next
  case PInf
  then show ?thesis by (simp add: np_div_def signed_inf_def)
next
  case NInf
  then show ?thesis using assms(1) by simp
next
  case NaN
  then show ?thesis using assms(1) by simp
qed

lemma sigma_daily_negative:
  assumes "np_lt fv (Fin 0)"
  shows "np_div (np_sqrt fv) (Fin (sqrt 252)) = NaN"
proof (cases fv)
  case (Fin v)
  then have "v < 0" using assms by (simp add: np_lt_def not_le)
  then show ?thesis using Fin by (simp add: np_div_def)
next
  case NZero
  then show ?thesis using assms by (simp add: np_lt_def)
next
  case PInf
  then show ?thesis using assms by (simp add: np_lt_def)
next
  case NInf
  then show ?thesis by (simp add: np_div_def)
next
  case NaN
  then show ?thesis by (simp add: np_div_def)
qed

lemma sigma_daily_negative_zero: "np_div NZero (Fin (sqrt 252)) = NZero"
  by (simp add: np_div_def signed_zero_def)

lemma counter_rows_from_7:
  "fst (draw_rows counter_next (Fin 0) (Fin 1) 2 2 7) = [[Fin 7, Fin 8], [Fin 9, Fin 10]]"
  by (simp add: counter_next_def numeral_2_eq_2 np_mul_Fin np_add_Fin f64_small)

lemma counter_rows_from_8:
  "fst (draw_rows counter_next (Fin 0) (Fin 1) 2 2 8) = [[Fin 8, Fin 9], [Fin 10, Fin 11]]"
  by (simp add: counter_next_def numeral_2_eq_2 np_mul_Fin np_add_Fin f64_small)

lemma f64_overflow_not_le [simp]: "x \<le> 1000000000000 \<Longrightarrow> \<not> f64_overflow \<le> x"
proof -
  assume "x \<le> 1000000000000"
  moreover have "(1000000000000::real) < f64_overflow"
    by (simp add: f64_overflow_def)
  ultimately show ?thesis by simp
qed

lemma days_small: "\<bar>d\<bar> \<le> 1000000000000 \<Longrightarrow> \<not> f64_overflow \<le> \<bar>real_of_int d\<bar>"
proof -
  assume "\<bar>d\<bar> \<le> 1000000000000"
  then have "\<bar>real_of_int d\<bar> \<le> 1000000000000"
    by (metis of_int_abs of_int_le_iff of_int_numeral)
  moreover have "(1000000000000::real) < f64_overflow"
    by (simp add: f64_overflow_def)
  ultimately show ?thesis by simp
qed

lemma simulate_result:
  "fst (simulate_log_return_paths seed_state nxt alloc glob spot fv d n seed) =
     (if seed < 0 then Inl (ValueError ''expected non-negative integer'')
      else if f64_overflow \<le> \<bar>real_of_int d\<bar>
        then Inl (OverflowError ''int too large to convert to float'')
      else if np_signbit (np_div (np_sqrt fv) (np_sqrt (Fin 252)))
        then Inl (ValueError ''scale < 0'')
      else case alloc n d of
        Some e \<Rightarrow> Inl e
      | None \<Rightarrow>
          if n < 0 \<or> d < 0 then Inl (ValueError ''negative dimensions are not allowed'')
          else Inr (fst (draw_rows nxt (Fin 0) (np_div (np_sqrt fv) (np_sqrt (Fin 252)))
                      (nat n) (nat d) (seed_state (nat seed)))))"
  by (simp add: simulate_log_return_paths_def default_rng_def py_int_to_float_def
      rng_normal_def Let_def case_prod_beta split: option.split)

text \<open>
  C4. Two calls with the same \<open>forward_variance\<close>, \<open>days_to_expiry\<close>, \<open>n_paths\<close> and
  \<open>seed\<close> (on the same machine) return the same matrix, or the same error, whatever the
  state of numpy's module-level generator is at each call and whatever \<open>spot\<close> is; a
  call leaves that state as it found it; and the result is the one drawn from the
  generator that \<open>default_rng\<close> builds from \<open>seed\<close>, sample after sample in row order.
\<close>

theorem simulate_deterministic:
  "fst (simulate_log_return_paths seed_state nxt alloc glob1 spot1 fv d n seed)
     = fst (simulate_log_return_paths seed_state nxt alloc glob2 spot2 fv d n seed)
   \<and> snd (simulate_log_return_paths seed_state nxt alloc glob1 spot1 fv d n seed) = glob1
   \<and> fst (simulate_log_return_paths seed_state nxt alloc glob1 spot1 fv d n seed) =
       (if seed < 0 then Inl (ValueError ''expected non-negative integer'')
        else if f64_overflow \<le> \<bar>real_of_int d\<bar>
          then Inl (OverflowError ''int too large to convert to float'')
        else if np_signbit (np_div (np_sqrt fv) (np_sqrt (Fin 252)))
          then Inl (ValueError ''scale < 0'')
        else case alloc n d of
          Some e \<Rightarrow> Inl e
        | None \<Rightarrow>
            if n < 0 \<or> d < 0 then Inl (ValueError ''negative dimensions are not allowed'')
            else Inr (fst (draw_rows nxt (Fin 0) (np_div (np_sqrt fv) (np_sqrt (Fin 252)))
                        (nat n) (nat d) (seed_state (nat seed)))))"
proof -
  have same: "fst (simulate_log_return_paths seed_state nxt alloc glob1 spot1 fv d n seed)
     = fst (simulate_log_return_paths seed_state nxt alloc glob2 spot2 fv d n seed)"
    by (simp only: simulate_result)
  have kept:
    "snd (simulate_log_return_paths seed_state nxt alloc glob1 spot1 fv d n seed) = glob1"
    by (simp add: simulate_log_return_paths_def Let_def split: sum.split prod.split)
  show ?thesis
    using same kept simulate_result [of seed_state nxt alloc glob1 spot1 fv d n seed]
    by (simp only: simp_thms)
qed

text \<open>
  An instance with the counter generator and daily volatility 1: seed 7 gives the same
  two rows under two different states of the module-level generator and two different
  spots, the state comes back unchanged, and seed 8 gives other rows.
\<close>

theorem simulate_deterministic_witness:
  "fst (simulate_log_return_paths id counter_next ample_memory (3::nat) 100 (Fin 252) 2 2 7)
     = Inr [[Fin 7, Fin 8], [Fin 9, Fin 10]]
   \<and> fst (simulate_log_return_paths id counter_next ample_memory (4::nat) 177 (Fin 252) 2 2 7)
     = Inr [[Fin 7, Fin 8], [Fin 9, Fin 10]]
   \<and> snd (simulate_log_return_paths id counter_next ample_memory (3::nat) 100 (Fin 252) 2 2 7)
     = 3
   \<and> fst (simulate_log_return_paths id counter_next ample_memory (3::nat) 100 (Fin 252) 2 2 8)
     = Inr [[Fin 8, Fin 9], [Fin 10, Fin 11]]"
proof -
  have t: "\<not> f64_overflow \<le> (2::real)"
    by simp
  have v7: "fst (simulate_log_return_paths id counter_next ample_memory g s (Fin 252) 2 2 7)
              = Inr [[Fin 7, Fin 8], [Fin 9, Fin 10]]" for g :: nat and s
    using t by (simp add: simulate_result sigma_daily_unit counter_rows_from_7
        ample_memory_def del: np_sqrt.simps)
  have v8: "fst (simulate_log_return_paths id counter_next ample_memory g s (Fin 252) 2 2 8)
              = Inr [[Fin 8, Fin 9], [Fin 10, Fin 11]]" for g :: nat and s
    using t by (simp add: simulate_result sigma_daily_unit counter_rows_from_8
        ample_memory_def del: np_sqrt.simps)
  have kept: "snd (simulate_log_return_paths id counter_next ample_memory (3::nat) 100
                     (Fin 252) 2 2 7) = 3"
    using simulate_deterministic
      [of id counter_next ample_memory "3::nat" 100 "Fin 252" 2 2 7 "4::nat" 177]
    by (simp only:)
  show ?thesis using v7 v8 kept by (simp only: simp_thms)
qed

text \<open>
  C5, as the code has it. For \<open>days_to_expiry > 0\<close>, \<open>n_paths > 0\<close>, a
  \<open>forward_variance \<ge> 0\<close> that is not the zero \<open>-0.0\<close>, a seed that numpy accepts
  (\<open>seed \<ge> 0\<close>) and sizes that the machine can provide (a \<open>days_to_expiry\<close> that
  Python can convert to a float, an array that numpy can create), the simulation returns
  a matrix with exactly \<open>n_paths\<close> rows, each of exactly \<open>days_to_expiry\<close> entries.
\<close>

theorem simulate_shape:
  assumes "0 < d" and "0 < n" and "np_le (Fin 0) fv" and "fv \<noteq> NZero" and "0 \<le> seed"
    and "real_of_int d < f64_overflow" and "alloc n d = None"
  shows "\<exists>m. fst (simulate_log_return_paths seed_state nxt alloc glob spot fv d n seed) = Inr m
           \<and> length m = nat n \<and> (\<forall>row \<in> set m. length row = nat d)"
  using assms sigma_daily_signbit [of fv]
  by (simp add: simulate_result draw_rows_length draw_rows_row_length not_le)

text \<open>
  An instance: two paths of two days from seed 7 with the counter generator and
  \<open>forward_variance = 252\<close>, which makes the daily volatility 1.
\<close>

theorem simulate_shape_witness:
  "(0::int) < 2 \<and> np_le (Fin 0) (Fin 252) \<and> Fin 252 \<noteq> NZero \<and> (0::int) \<le> 7
   \<and> real_of_int 2 < f64_overflow \<and> limited_memory 2 2 = None
   \<and> fst (simulate_log_return_paths id counter_next limited_memory () 100 (Fin 252) 2 2 7)
        = Inr [[Fin 7, Fin 8], [Fin 9, Fin 10]]
   \<and> (\<exists>m. fst (simulate_log_return_paths id counter_next limited_memory () 100 (Fin 252) 2 2 7)
             = Inr m
           \<and> length m = nat 2 \<and> (\<forall>row \<in> set m. length row = nat 2))"
proof -
  have a: "limited_memory 2 2 = None"
    by (simp add: limited_memory_def)
  have t: "real_of_int 2 < f64_overflow"
    by (simp add: f64_overflow_def)
  have v: "fst (simulate_log_return_paths id counter_next limited_memory () 100 (Fin 252) 2 2 7)
             = Inr [[Fin 7, Fin 8], [Fin 9, Fin 10]]"
    by (simp add: simulate_result sigma_daily_unit counter_rows_from_7 a days_small
        del: np_sqrt.simps)
  show ?thesis
    using a t v simulate_shape [of 2 2 "Fin 252" 7 limited_memory id counter_next "()" 100]
    by simp
qed

text \<open>
  C5 as stated fails in four places. The configuration of the example scenario with
  \<open>seed = -1\<close> raises numpy's ValueError for the seed; with the variance \<open>-0.0\<close>, which
  is \<open>\<ge> 0\<close>, the daily volatility is \<open>-0.0\<close> and \<open>rng.normal\<close> raises ValueError for a
  negative scale; with \<open>days_to_expiry = 2^1024\<close> the division by \<open>252.0\<close> raises
  OverflowError; and on a machine that holds a million entries the valid sizes
  5000 by 12000 raise MemoryError. None of the four calls returns a matrix.
\<close>

theorem simulate_shape_counterexample:
  "fst (simulate_log_return_paths id counter_next ample_memory () 100 (Fin (1 / 5)) 12 5000
         (- 1))
     = Inl (ValueError ''expected non-negative integer'')
   \<and> np_le (Fin 0) NZero
   \<and> fst (simulate_log_return_paths id counter_next ample_memory () 100 NZero 12 5000 42)
     = Inl (ValueError ''scale < 0'')
   \<and> fst (simulate_log_return_paths id counter_next ample_memory () 100 (Fin 252) (2 ^ 1024)
         5000 42)
     = Inl (OverflowError ''int too large to convert to float'')
   \<and> fst (simulate_log_return_paths id counter_next limited_memory () 100 (Fin 252) 12000
         5000 42)
     = Inl (MemoryError ''Unable to allocate array'')"
proof -
  have a: "fst (simulate_log_return_paths id counter_next ample_memory () 100 (Fin (1 / 5))
                  12 5000 (- 1)) = Inl (ValueError ''expected non-negative integer'')"
    by (simp add: simulate_result)
  have b: "fst (simulate_log_return_paths id counter_next ample_memory () 100 NZero 12 5000 42)
             = Inl (ValueError ''scale < 0'')"
    by (simp add: simulate_result sigma_daily_negative_zero days_small)
  have c: "fst (simulate_log_return_paths id counter_next ample_memory () 100 (Fin 252)
                  (2 ^ 1024) 5000 42)
             = Inl (OverflowError ''int too large to convert to float'')"
    by (simp add: simulate_result f64_overflow_def)
  have e: "fst (simulate_log_return_paths id counter_next limited_memory () 100 (Fin 252)
                  12000 5000 42) = Inl (MemoryError ''Unable to allocate array'')"
    by (simp add: simulate_result sigma_daily_unit limited_memory_def days_small
        del: np_sqrt.simps)
  show ?thesis using a b c e by simp
qed

text \<open>
  C2, as the code has it. The simulation validates neither \<open>days_to_expiry\<close> nor
  \<open>forward_variance\<close>. For a seed that numpy accepts (\<open>seed \<ge> 0\<close>), a
  \<open>forward_variance\<close> other than the zero \<open>-0.0\<close> and sizes that the machine can provide
  (a \<open>days_to_expiry\<close> that Python can convert to a float, an array that numpy can
  create):
  with \<open>days_to_expiry = 0\<close> and \<open>n_paths \<ge> 0\<close> it returns \<open>n_paths\<close> empty rows;
  with \<open>days_to_expiry > 0\<close>, \<open>n_paths \<ge> 0\<close> and \<open>forward_variance < 0\<close> it returns a
  matrix whose entries are all \<open>NaN\<close>;
  only \<open>days_to_expiry < 0\<close> fails, with numpy's ValueError for a negative dimension;
  and with \<open>days_to_expiry > 0\<close> and \<open>forward_variance \<ge> 0\<close> no error is raised on account
  of \<open>days_to_expiry\<close> or \<open>forward_variance\<close>: the call returns a matrix, or, when
  \<open>n_paths\<close> is negative, the ValueError for a negative dimension.
\<close>

theorem simulate_no_validation:
  assumes "0 \<le> seed" and "fv \<noteq> NZero" and "\<bar>real_of_int d\<bar> < f64_overflow"
    and "alloc n d = None"
  shows "(d = 0 \<and> 0 \<le> n \<longrightarrow>
            fst (simulate_log_return_paths seed_state nxt alloc glob spot fv d n seed)
              = Inr (replicate (nat n) []))
       \<and> (0 < d \<and> 0 \<le> n \<and> np_lt fv (Fin 0) \<longrightarrow>
            fst (simulate_log_return_paths seed_state nxt alloc glob spot fv d n seed)
              = Inr (replicate (nat n) (replicate (nat d) NaN)))
       \<and> (d < 0 \<longrightarrow>
            fst (simulate_log_return_paths seed_state nxt alloc glob spot fv d n seed)
              = Inl (ValueError ''negative dimensions are not allowed''))
       \<and> (0 < d \<and> np_le (Fin 0) fv \<longrightarrow>
            (\<exists>m. fst (simulate_log_return_paths seed_state nxt alloc glob spot fv d n seed)
                   = Inr m)
            \<or> (n < 0
               \<and> fst (simulate_log_return_paths seed_state nxt alloc glob spot fv d n seed)
                   = Inl (ValueError ''negative dimensions are not allowed'')))"
proof -
  have any: "\<not> np_signbit (np_div (np_sqrt fv) (Fin (sqrt 252)))"
  proof (cases "np_le (Fin 0) fv")
    case True
    then show ?thesis using assms(2) by (rule sigma_daily_signbit)
  next
    case False
    then have "np_lt fv (Fin 0) \<or> fv = NaN"
      using assms(2) by (cases fv) (auto simp: np_lt_def)
    then show ?thesis using sigma_daily_negative [of fv] by (auto simp: np_div_def)
  qed
  have a: "d = 0 \<Longrightarrow> 0 \<le> n \<Longrightarrow>
      fst (simulate_log_return_paths seed_state nxt alloc glob spot fv d n seed)
        = Inr (replicate (nat n) [])"
    using assms(1,3,4) any by (simp add: simulate_result draw_rows_no_columns not_le)
  have b: "0 < d \<Longrightarrow> 0 \<le> n \<Longrightarrow> np_lt fv (Fin 0) \<Longrightarrow>
      fst (simulate_log_return_paths seed_state nxt alloc glob spot fv d n seed)
        = Inr (replicate (nat n) (replicate (nat d) NaN))"
    using assms(1,3,4) by (simp add: simulate_result sigma_daily_negative draw_rows_nan not_le)
  have c: "d < 0 \<Longrightarrow>
      fst (simulate_log_return_paths seed_state nxt alloc glob spot fv d n seed)
        = Inl (ValueError ''negative dimensions are not allowed'')"
    using assms(1,3,4) any by (simp add: simulate_result not_le)
  have e: "0 < d \<Longrightarrow>
      (\<exists>m. fst (simulate_log_return_paths seed_state nxt alloc glob spot fv d n seed) = Inr m)
      \<or> (n < 0 \<and> fst (simulate_log_return_paths seed_state nxt alloc glob spot fv d n seed)
                   = Inl (ValueError ''negative dimensions are not allowed''))"
    using assms(1,3,4) any by (simp add: simulate_result not_le)
  show ?thesis using a b c e by blast
qed

text \<open>Instances of the four cases, with three paths from seed 7.\<close>

theorem simulate_no_validation_witness:
  "(0::int) \<le> 7 \<and> Fin (1 / 5) \<noteq> NZero \<and> Fin (- 4) \<noteq> NZero \<and> np_lt (Fin (- 4)) (Fin 0)
   \<and> np_le (Fin 0) (Fin (1 / 5)) \<and> \<bar>real_of_int (- 2)\<bar> < f64_overflow
   \<and> ample_memory 3 1 = None
   \<and> fst (simulate_log_return_paths id counter_next ample_memory () 177 (Fin (1 / 5)) 0 3 7)
        = Inr [[], [], []]
   \<and> fst (simulate_log_return_paths id counter_next ample_memory () 177 (Fin (- 4)) 1 3 7)
        = Inr [[NaN], [NaN], [NaN]]
   \<and> fst (simulate_log_return_paths id counter_next ample_memory () 177 (Fin (1 / 5)) (- 2) 3 7)
        = Inl (ValueError ''negative dimensions are not allowed'')
   \<and> (\<exists>m. fst (simulate_log_return_paths id counter_next ample_memory () 177 (Fin (1 / 5)) 1 3 7)
             = Inr m)"
  using simulate_no_validation [of 7 "Fin (1 / 5)" 0 ample_memory 3 id counter_next "()" 177]
    simulate_no_validation [of 7 "Fin (- 4)" 1 ample_memory 3 id counter_next "()" 177]
    simulate_no_validation [of 7 "Fin (1 / 5)" "- 2" ample_memory 3 id counter_next "()" 177]
    simulate_no_validation [of 7 "Fin (1 / 5)" 1 ample_memory 3 id counter_next "()" 177]
  by (simp add: eval_nat_numeral np_lt_def ample_memory_def days_small not_le [symmetric])

text \<open>
  C2 as stated fails: with \<open>days_to_expiry = 0\<close> the simulation returns two empty
  rows, and with \<open>forward_variance = -1\<close> it returns a row of \<open>NaN\<close>; neither call
  raises an error.
\<close>

theorem simulate_no_validation_counterexample:
  "fst (simulate_log_return_paths id counter_next ample_memory () 100 (Fin (1 / 5)) 0 2 42)
     = Inr [[], []]
   \<and> fst (simulate_log_return_paths id counter_next ample_memory () 100 (Fin (- 1)) 2 1 42)
       = Inr [[NaN, NaN]]"
proof -
  have s: "\<not> np_signbit (np_div (np_sqrt (Fin (1 / 5))) (Fin (sqrt 252)))"
    by (rule sigma_daily_signbit) simp_all
  have a: "fst (simulate_log_return_paths id counter_next ample_memory () 100 (Fin (1 / 5))
                  0 2 42) = Inr [[], []]"
    using s by (simp add: simulate_result eval_nat_numeral ample_memory_def days_small)
  have b: "fst (simulate_log_return_paths id counter_next ample_memory () 100 (Fin (- 1))
                  2 1 42) = Inr [[NaN, NaN]]"
    by (simp add: simulate_result counter_next_def eval_nat_numeral np_div_def np_mul_def
        np_add_def ample_memory_def days_small)
  show ?thesis using a b by simp
qed

end
